theory Spec2Isabelle
  imports Complex_Main
begin

section \<open>Slate detection: a shallow embedding of \<open>slate_detection.py\<close>\<close>

text \<open>
  Python strings are modelled as \<open>string\<close> (lists of \<open>char\<close>) and the model covers
  ASCII text: the character classes below are the ASCII part of Python's \<open>str.isspace\<close>,
  \<open>str.isalnum\<close>, \<open>str.isdigit\<close> and \<open>str.upper\<close>. Python's binary floating point
  numbers are modelled as exact reals, so rounding is outside the model. Optional text
  fields are \<open>string option\<close>; a Python truth test on such a field (\<open>if x:\<close>) holds when
  the field is neither \<open>None\<close> nor the empty string.
\<close>

subsection \<open>String primitives\<close>

definition is_space :: "char \<Rightarrow> bool" where
  "is_space c \<longleftrightarrow> c \<in> set [CHR '' '', CHR 0x09, CHR 0x0A, CHR 0x0B, CHR 0x0C, CHR 0x0D,
                              CHR 0x1C, CHR 0x1D, CHR 0x1E, CHR 0x1F]"

definition is_digit :: "char \<Rightarrow> bool" where
  "is_digit c \<longleftrightarrow> c \<in> set ''0123456789''"

definition is_lower :: "char \<Rightarrow> bool" where
  "is_lower c \<longleftrightarrow> c \<in> set ''abcdefghijklmnopqrstuvwxyz''"

definition is_upper :: "char \<Rightarrow> bool" where
  "is_upper c \<longleftrightarrow> c \<in> set ''ABCDEFGHIJKLMNOPQRSTUVWXYZ''"

definition is_alnum :: "char \<Rightarrow> bool" where
  "is_alnum c \<longleftrightarrow> is_digit c \<or> is_lower c \<or> is_upper c"

definition to_upper :: "char \<Rightarrow> char" where
  "to_upper c = (case map_of (zip ''abcdefghijklmnopqrstuvwxyz'' ''ABCDEFGHIJKLMNOPQRSTUVWXYZ'') c of
                   None \<Rightarrow> c | Some u \<Rightarrow> u)"

text \<open>\<open>s.upper()\<close>\<close>
definition upper :: "string \<Rightarrow> string" where
  "upper s = map to_upper s"

text \<open>\<open>s.isalnum()\<close> and \<open>s.isdigit()\<close>: false on the empty string.\<close>
definition isalnum :: "string \<Rightarrow> bool" where
  "isalnum s \<longleftrightarrow> s \<noteq> [] \<and> list_all is_alnum s"

definition isdigit :: "string \<Rightarrow> bool" where
  "isdigit s \<longleftrightarrow> s \<noteq> [] \<and> list_all is_digit s"

text \<open>\<open>s.strip()\<close>: whitespace removed at both ends.\<close>
definition strip :: "string \<Rightarrow> string" where
  "strip s = rev (dropWhile is_space (rev (dropWhile is_space s)))"

text \<open>\<open>s.strip(c)\<close> for a single character \<open>c\<close>.\<close>
definition strip_char :: "char \<Rightarrow> string \<Rightarrow> string" where
  "strip_char c s = rev (dropWhile (\<lambda>x. x = c) (rev (dropWhile (\<lambda>x. x = c) s)))"

text \<open>\<open>s.replace(c, '')\<close> for a single character \<open>c\<close>.\<close>
definition remove_char :: "char \<Rightarrow> string \<Rightarrow> string" where
  "remove_char c s = filter (\<lambda>x. x \<noteq> c) s"

text \<open>\<open>s.split(sep)\<close> for a single character separator; \<open>cur\<close> is the piece being read.\<close>
fun split_from :: "char \<Rightarrow> string \<Rightarrow> string \<Rightarrow> string list" where
  "split_from sep cur [] = [cur]"
| "split_from sep cur (c # cs) =
     (if c = sep then cur # split_from sep [] cs else split_from sep (cur @ [c]) cs)"

definition split_char :: "char \<Rightarrow> string \<Rightarrow> string list" where
  "split_char sep s = split_from sep [] s"

text \<open>\<open>s.split()\<close>: pieces between runs of whitespace, none of them empty.\<close>
fun words_from :: "string \<Rightarrow> string \<Rightarrow> string list" where
  "words_from cur [] = (if cur = [] then [] else [cur])"
| "words_from cur (c # cs) =
     (if is_space c then (if cur = [] then words_from [] cs else cur # words_from [] cs)
      else words_from (cur @ [c]) cs)"

definition split_ws :: "string \<Rightarrow> string list" where
  "split_ws s = words_from [] s"

text \<open>\<open>sub in s\<close> on strings.\<close>
fun contains :: "string \<Rightarrow> string \<Rightarrow> bool" where
  "contains sub [] = (sub = [])"
| "contains sub (c # cs) = (take (length sub) (c # cs) = sub \<or> contains sub cs)"

text \<open>\<open>s.endswith(suf)\<close>\<close>
definition endswith :: "string \<Rightarrow> string \<Rightarrow> bool" where
  "endswith s suf \<longleftrightarrow> length suf \<le> length s \<and> drop (length s - length suf) s = suf"

text \<open>\<open>sep.join(parts)\<close>\<close>
fun join :: "string \<Rightarrow> string list \<Rightarrow> string" where
  "join sep [] = []"
| "join sep [p] = p"
| "join sep (p # q # ps) = p @ sep @ join sep (q # ps)"

text \<open>The truth value of an optional string.\<close>
definition truthy :: "string option \<Rightarrow> bool" where
  "truthy x = (case x of None \<Rightarrow> False | Some s \<Rightarrow> s \<noteq> [])"

subsection \<open>SlateInfo\<close>

record SlateInfo =
  production :: "string option"
  slate_number :: "string option"
  scene :: "string option"
  take_fld :: "string option"
  roll :: "string option"
  camera :: "string option"
  director :: "string option"
  date :: "string option"
  confidence :: real
  frame_number :: int

text \<open>\<open>SlateInfo()\<close>: the dataclass defaults.\<close>
definition SlateInfo_default :: SlateInfo where
  "SlateInfo_default = \<lparr>production = None, slate_number = None, scene = None, take_fld = None,
     roll = None, camera = None, director = None, date = None, confidence = 0, frame_number = 0\<rparr>"

subsection \<open>SlateDetector._parse_slate_text\<close>

text \<open>\<open>potential.replace('/', '').replace('-', '').isalnum()\<close>\<close>
definition alnum_after_strip :: "string \<Rightarrow> bool" where
  "alnum_after_strip p = isalnum (remove_char CHR ''-'' (remove_char CHR ''/'' p))"

text \<open>
  The four inner loops \<open>for i, word in enumerate(words)\<close>. Each walks the tokens with the
  token that follows; the guard \<open>i + 1 < len(words)\<close> fails exactly at the last token.
\<close>

fun scan_slate_scene :: "string list \<Rightarrow> SlateInfo \<Rightarrow> SlateInfo" where
  "scan_slate_scene (word # nxt # ws) s =
     scan_slate_scene (nxt # ws)
       (if word \<in> set [''SLATE'', ''SCENE'']
        then (let potential_number = strip_char CHR '':'' nxt in
              if alnum_after_strip potential_number
              then (if contains ''SLATE'' word
                    then s\<lparr>slate_number := Some potential_number\<rparr>
                    else s\<lparr>scene := Some potential_number\<rparr>)
              else s)
        else s)"
| "scan_slate_scene ws s = s"

fun scan_take :: "string list \<Rightarrow> SlateInfo \<Rightarrow> SlateInfo" where
  "scan_take (word # nxt # ws) s =
     scan_take (nxt # ws)
       (if contains ''TAKE'' word
        then (let potential_take = strip_char CHR '':'' nxt in
              if isdigit potential_take then s\<lparr>take_fld := Some potential_take\<rparr> else s)
        else s)"
| "scan_take ws s = s"

fun scan_roll :: "string list \<Rightarrow> SlateInfo \<Rightarrow> SlateInfo" where
  "scan_roll (word # nxt # ws) s =
     scan_roll (nxt # ws)
       (if contains ''ROLL'' word
        then (let potential_roll = strip_char CHR '':'' nxt in
              if alnum_after_strip potential_roll then s\<lparr>roll := Some potential_roll\<rparr> else s)
        else s)"
| "scan_roll ws s = s"

fun scan_camera :: "string list \<Rightarrow> SlateInfo \<Rightarrow> SlateInfo" where
  "scan_camera (word # nxt # ws) s =
     scan_camera (nxt # ws)
       (if contains ''CAMERA'' word \<or> contains ''CAM'' word
        then (let potential_camera = strip_char CHR '':'' nxt in
              if alnum_after_strip potential_camera then s\<lparr>camera := Some potential_camera\<rparr> else s)
        else s)"
| "scan_camera ws s = s"

text \<open>The production rule at the end of the loop body; \<open>line\<close> is already stripped and upper-cased.\<close>
definition production_rule :: "string \<Rightarrow> SlateInfo \<Rightarrow> SlateInfo" where
  "production_rule line s =
     (if length line > 5 \<and>
         \<not> list_ex (\<lambda>keyword. contains keyword line) [''SLATE'', ''SCENE'', ''TAKE'', ''ROLL'', ''CAMERA'']
      then (if \<not> truthy (production s) \<and> isalnum (remove_char CHR '' '' line)
            then s\<lparr>production := Some line\<rparr> else s)
      else s)"

text \<open>One iteration of \<open>for line in lines\<close>.\<close>
definition parse_line :: "string \<Rightarrow> SlateInfo \<Rightarrow> SlateInfo" where
  "parse_line raw_line s =
     (let line = upper (strip raw_line);
          s1 = (if contains ''SLATE'' line \<or> contains ''SCENE'' line
                then scan_slate_scene (split_ws line) s else s);
          s2 = (if contains ''TAKE'' line then scan_take (split_ws line) s1 else s1);
          s3 = (if contains ''ROLL'' line then scan_roll (split_ws line) s2 else s2);
          s4 = (if contains ''CAMERA'' line \<or> contains ''CAM'' line
                then scan_camera (split_ws line) s3 else s3)
      in production_rule line s4)"

fun parse_lines :: "string list \<Rightarrow> SlateInfo \<Rightarrow> SlateInfo" where
  "parse_lines [] s = s"
| "parse_lines (l # ls) s = parse_lines ls (parse_line l s)"

definition parse_slate_text :: "string \<Rightarrow> SlateInfo" where
  "parse_slate_text text = parse_lines (split_char CHR 0x0A (strip text)) SlateInfo_default"

subsection \<open>SlateDetector._calculate_confidence\<close>

definition calculate_confidence :: "SlateInfo \<Rightarrow> string \<Rightarrow> real" where
  "calculate_confidence slate_info raw_text =
     (let c0 = (0::real);
          c1 = (if length (strip raw_text) > 10 then c0 + 0.1 else c0);
          c2 = (if truthy (slate_number slate_info) then c1 + 0.3 else c1);
          c3 = (if truthy (scene slate_info) then c2 + 0.2 else c2);
          c4 = (if truthy (take_fld slate_info) then c3 + 0.2 else c3);
          c5 = (if truthy (roll slate_info) then c4 + 0.1 else c4);
          c6 = (if truthy (camera slate_info) then c5 + 0.1 else c5);
          c7 = (if truthy (production slate_info) then c6 + 0.1 else c6)
      in min c7 1.0)"

subsection \<open>Errors and the environment\<close>

text \<open>Python exceptions as values; each carries its message, which \<open>str(e)\<close> reads.\<close>
datatype error = ImportError string | FileNotFoundError string | Exception string

fun str_of_error :: "error \<Rightarrow> string" where
  "str_of_error (ImportError m) = m"
| "str_of_error (FileNotFoundError m) = m"
| "str_of_error (Exception m) = m"

text \<open>The module flags set by the guarded imports.\<close>
record deps =
  HAS_OPENCV :: bool
  HAS_TESSERACT :: bool

text \<open>
  A frame is represented by what the OCR steps of \<open>analyze_frame\<close> do on it
  (\<open>cv2.cvtColor\<close>, \<open>Image.fromarray\<close>, \<open>pytesseract.image_to_string\<close>): the text they
  return, or the exception one of them raises. A capture is the sequence of outcomes of
  \<open>cap.read()\<close>: a frame (\<open>ret\<close> true) or an exception; once the sequence is used up,
  \<open>cap.read()\<close> returns \<open>ret\<close> false.
\<close>
type_synonym frame = "error + string"
type_synonym capture = "(error + frame) list"

subsection \<open>SlateDetector.analyze_frame\<close>

definition analyze_frame :: "deps \<Rightarrow> frame \<Rightarrow> SlateInfo" where
  "analyze_frame d frame =
     (if \<not> HAS_TESSERACT d \<or> \<not> HAS_OPENCV d then SlateInfo_default\<lparr>confidence := 0.0\<rparr>
      else (case frame of
              Inl e \<Rightarrow> SlateInfo_default\<lparr>confidence := 0.0\<rparr>
            | Inr text \<Rightarrow>
                (let slate_info = parse_slate_text text
                 in slate_info\<lparr>confidence := calculate_confidence slate_info text\<rparr>)))"

subsection \<open>ClipRenamer\<close>

definition generate_clip_name :: "SlateInfo \<Rightarrow> string \<Rightarrow> string" where
  "generate_clip_name slate_info original_name =
     (let parts1 = (case production slate_info of
                      Some p \<Rightarrow> (if p \<noteq> [] then [p] else []) | None \<Rightarrow> []);
          parts2 = (if truthy (scene slate_info)
                    then (case scene slate_info of Some v \<Rightarrow> parts1 @ [''Scene_'' @ v] | None \<Rightarrow> parts1)
                    else if truthy (slate_number slate_info)
                    then (case slate_number slate_info of Some v \<Rightarrow> parts1 @ [''Slate_'' @ v] | None \<Rightarrow> parts1)
                    else parts1);
          parts3 = (case take_fld slate_info of
                      Some v \<Rightarrow> (if v \<noteq> [] then parts2 @ [''Take_'' @ v] else parts2) | None \<Rightarrow> parts2);
          name_parts = (case camera slate_info of
                      Some v \<Rightarrow> (if v \<noteq> [] then parts3 @ [''Cam_'' @ v] else parts3) | None \<Rightarrow> parts3)
      in if name_parts = [] then original_name
         else (let new_name = join ''_'' name_parts
               in if CHR ''.'' \<in> set original_name
                  then (let extension = last (split_char CHR ''.'' original_name)
                        in if \<not> endswith new_name (CHR ''.'' # extension)
                           then new_name @ ''.'' @ extension else new_name)
                  else new_name))"

text \<open>\<open>rename_clip\<close>: the outcome of \<open>clip.SetClipProperty("Clip Name", new_name)\<close>; an exception is
  caught and gives \<open>False\<close>.\<close>
definition rename_clip :: "(string \<Rightarrow> error + bool) \<Rightarrow> string \<Rightarrow> bool" where
  "rename_clip SetClipName new_name =
     (case SetClipName new_name of Inl e \<Rightarrow> False | Inr success \<Rightarrow> success)"

subsection \<open>analyze_video_for_slate\<close>

text \<open>
  The \<open>while\<close> loop. \<open>best\<close> is \<open>best_slate_info\<close>. The last argument is ghost state: it
  records, in order, every result of \<open>detector.analyze_frame\<close> (with its frame number set),
  that is, the frames the loop has sampled. An exception of \<open>cap.read()\<close> is re-raised.
\<close>
fun sample_frames ::
  "deps \<Rightarrow> int \<Rightarrow> capture \<Rightarrow> int \<Rightarrow> SlateInfo \<Rightarrow> SlateInfo list \<Rightarrow> error + (SlateInfo \<times> SlateInfo list)"
where
  "sample_frames d max_frames [] frame_count best sampled = Inr (best, sampled)"
| "sample_frames d max_frames (r # rs) frame_count best sampled =
     (if frame_count < max_frames
      then (case r of
              Inl e \<Rightarrow> Inl e
            | Inr frame \<Rightarrow>
                (if frame_count mod 5 = 0
                 then (let slate_info = (analyze_frame d frame)\<lparr>frame_number := frame_count\<rparr>;
                           best' = (if confidence slate_info > confidence best then slate_info else best)
                       in if confidence slate_info > 0.8
                          then Inr (best', sampled @ [slate_info])
                          else sample_frames d max_frames rs (frame_count + 1) best'
                                 (sampled @ [slate_info]))
                 else sample_frames d max_frames rs (frame_count + 1) best sampled))
      else Inr (best, sampled))"

text \<open>The function with the ghost record of the sampled frames, and the function itself.\<close>
definition analyze_video_trace ::
  "deps \<Rightarrow> bool \<Rightarrow> capture \<Rightarrow> int \<Rightarrow> error + (SlateInfo \<times> SlateInfo list)" where
  "analyze_video_trace d path_exists cap max_frames =
     (if \<not> HAS_OPENCV d then Inl (ImportError ''OpenCV is required for video analysis'')
      else if \<not> path_exists then Inl (FileNotFoundError ''Video file not found'')
      else sample_frames d max_frames cap 0 SlateInfo_default [])"

definition analyze_video_for_slate :: "deps \<Rightarrow> bool \<Rightarrow> capture \<Rightarrow> int \<Rightarrow> error + SlateInfo" where
  "analyze_video_for_slate d path_exists cap max_frames =
     (case analyze_video_trace d path_exists cap max_frames of
        Inl e \<Rightarrow> Inl e
      | Inr (best, sampled) \<Rightarrow> Inr best)"

subsection \<open>analyze_clips_and_rename\<close>

text \<open>
  A clip of the media pool, as the batch sees it: the outcomes of \<open>clip.GetName()\<close> and
  \<open>clip.GetClipProperty("File Path")\<close> (a value or an exception), whether the path exists on
  disk, the capture opened on the file, and what \<open>SetClipProperty("Clip Name", _)\<close> does.
\<close>
record clip =
  GetName :: "error + string"
  File_Path :: "error + string option"
  path_exists :: bool
  video :: capture
  SetClipName :: "string \<Rightarrow> error + bool"

text \<open>The per-clip dictionary; a key that is not in the dictionary is \<open>None\<close>.\<close>
record ClipResult =
  original_name :: string
  status :: string
  reason :: "string option"
  new_name :: "string option"
  slate_info :: "(string \<times> string option) list option"
  result_confidence :: "real option"

record BatchResult =
  analyzed_clips :: int
  successful_renames :: int
  failed_renames :: int
  clip_results :: "ClipResult list"

text \<open>Decimal digits of a natural number, and \<open>f"{x:.2f}"\<close> for a non-negative \<open>x\<close>
  (rounded to the nearest hundredth).\<close>
fun decimal :: "nat \<Rightarrow> string" where
  "decimal n = (if n < 10 then [''0123456789'' ! n]
                else decimal (n div 10) @ [''0123456789'' ! (n mod 10)])"

definition format_2f :: "real \<Rightarrow> string" where
  "format_2f x =
     (let n = nat \<lfloor>x * 100 + 1 / 2\<rfloor>
      in decimal (n div 100) @ ''.'' @ [''0123456789'' ! ((n div 10) mod 10), ''0123456789'' ! (n mod 10)])"

definition append_result :: "BatchResult \<Rightarrow> ClipResult \<Rightarrow> BatchResult" where
  "append_result results clip_result =
     results\<lparr>clip_results := clip_results results @ [clip_result]\<rparr>"

text \<open>One iteration of \<open>for clip in clips\<close>. An exception of \<open>GetName\<close> or \<open>GetClipProperty\<close>
  is not caught here: it leaves the loop.\<close>
definition process_clip :: "deps \<Rightarrow> bool \<Rightarrow> clip \<Rightarrow> BatchResult \<Rightarrow> error + BatchResult" where
  "process_clip d dry_run clip results0 =
     (case GetName clip of
        Inl e \<Rightarrow> Inl e
      | Inr clip_name \<Rightarrow>
     (case File_Path clip of
        Inl e \<Rightarrow> Inl e
      | Inr clip_path \<Rightarrow>
     (let clip_result = \<lparr>original_name = clip_name, status = ''error'', reason = None,
                          new_name = None, slate_info = None, result_confidence = None\<rparr>;
          results = results0\<lparr>analyzed_clips := analyzed_clips results0 + 1\<rparr>
      in if \<not> truthy clip_path \<or> \<not> path_exists clip
         then Inr (append_result results
                (clip_result\<lparr>reason := Some ''File path not found or file does not exist'',
                              status := ''skipped''\<rparr>))
         else (case analyze_video_for_slate d (path_exists clip) (video clip) 30 of
                 Inl e \<Rightarrow>
                   Inr (append_result (results\<lparr>failed_renames := failed_renames results + 1\<rparr>)
                     (clip_result\<lparr>reason := Some (''Analysis error: '' @ str_of_error e),
                                   status := ''error''\<rparr>))
               | Inr si \<Rightarrow>
                   (if confidence si < 0.3
                    then Inr (append_result results
                           (clip_result\<lparr>reason := Some (''Low confidence slate detection ('' @
                                                          format_2f (confidence si) @ '')''),
                                         status := ''skipped''\<rparr>))
                    else (let name' = generate_clip_name si clip_name
                          in if name' = clip_name
                             then Inr (append_result results
                                    (clip_result\<lparr>reason := Some ''Generated name same as original'',
                                                  status := ''skipped''\<rparr>))
                             else (let clip_result = clip_result\<lparr>new_name := Some name',
                                         slate_info := Some [(''production'', production si),
                                                             (''slate_number'', slate_number si),
                                                             (''scene'', scene si),
                                                             (''take'', take_fld si),
                                                             (''roll'', roll si),
                                                             (''camera'', camera si)],
                                         result_confidence := Some (confidence si)\<rparr>
                                   in if \<not> dry_run
                                      then (if rename_clip (SetClipName clip) name'
                                            then Inr (append_result
                                                   (results\<lparr>successful_renames := successful_renames results + 1\<rparr>)
                                                   (clip_result\<lparr>status := ''renamed''\<rparr>))
                                            else Inr (append_result
                                                   (results\<lparr>failed_renames := failed_renames results + 1\<rparr>)
                                                   (clip_result\<lparr>status := ''error'',
                                                                 reason := Some ''Failed to rename clip''\<rparr>)))
                                      else Inr (append_result
                                             (results\<lparr>successful_renames := successful_renames results + 1\<rparr>)
                                             (clip_result\<lparr>status := ''renamed''\<rparr>)))))))))"

fun process_clips :: "deps \<Rightarrow> bool \<Rightarrow> clip list \<Rightarrow> BatchResult \<Rightarrow> error + BatchResult" where
  "process_clips d dry_run [] results = Inr results"
| "process_clips d dry_run (clip # clips) results =
     (case process_clip d dry_run clip results of
        Inl e \<Rightarrow> Inl e
      | Inr results' \<Rightarrow> process_clips d dry_run clips results')"

definition initial_results :: BatchResult where
  "initial_results = \<lparr>analyzed_clips = 0, successful_renames = 0, failed_renames = 0, clip_results = []\<rparr>"

text \<open>
  The whole function. \<open>listing\<close> is the outcome of \<open>folder.GetClips()\<close>. The result is the
  dictionary of results, or (\<open>Inl\<close>) the text of the dictionary \<open>{"error": ...}\<close>.
\<close>
definition analyze_clips_and_rename :: "deps \<Rightarrow> error + clip list \<Rightarrow> bool \<Rightarrow> string + BatchResult" where
  "analyze_clips_and_rename d listing dry_run =
     (if \<not> HAS_OPENCV d \<or> \<not> HAS_TESSERACT d
      then Inl ''Required dependencies not available. Install opencv-python and pytesseract.''
      else (case listing of
              Inl e \<Rightarrow> Inl (''Failed to analyze clips: '' @ str_of_error e)
            | Inr clips \<Rightarrow>
                (if clips = [] then Inl ''No clips found in the specified folder.''
                 else (case process_clips d dry_run clips initial_results of
                         Inl e \<Rightarrow> Inl (''Failed to analyze clips: '' @ str_of_error e)
                       | Inr results \<Rightarrow> Inr results))))"

subsection \<open>Notions used in the statements\<close>

text \<open>The data-model invariant of the text fields the parser fills: a field that is set
  is not the empty string.\<close>
definition fields_nonempty :: "SlateInfo \<Rightarrow> bool" where
  "fields_nonempty s \<longleftrightarrow>
     Some [] \<notin> set [production s, slate_number s, scene s, take_fld s, roll s, camera s]"

text \<open>A later optional value, when present, replaces an earlier one.\<close>
definition override :: "'a option \<Rightarrow> 'a option \<Rightarrow> 'a option" where
  "override later earlier = (case later of None \<Rightarrow> earlier | Some v \<Rightarrow> Some v)"



text \<open>What the parser never touches, together with the invariant of the text fields.\<close>
definition parser_inv :: "SlateInfo \<Rightarrow> bool" where
  "parser_inv s \<longleftrightarrow> fields_nonempty s \<and> director s = None \<and> date s = None \<and>
     confidence s = 0 \<and> frame_number s = 0"


text \<open>The clip has no usable file: the path is absent or empty, or nothing exists at it.\<close>
definition missing_file :: "clip \<Rightarrow> bool" where
  "missing_file c \<longleftrightarrow> (case File_Path c of Inl e \<Rightarrow> False
                                           | Inr clip_path \<Rightarrow> \<not> truthy clip_path \<or> \<not> path_exists c)"

text \<open>What it means that the outcome of a clip is recorded in its result: the result has the
  clip's name, a status, a reason unless it was renamed, and for each kind of failure the
  status and reason of that kind.\<close>
definition recorded :: "deps \<Rightarrow> bool \<Rightarrow> clip \<Rightarrow> ClipResult \<Rightarrow> bool" where
  "recorded d dry_run c cr \<longleftrightarrow>
     GetName c = Inr (original_name cr) \<and>
     status cr \<in> set [''renamed'', ''skipped'', ''error''] \<and>
     (status cr \<noteq> ''renamed'' \<longrightarrow> reason cr \<noteq> None) \<and>
     (if missing_file c
      then status cr = ''skipped'' \<and> reason cr = Some ''File path not found or file does not exist''
      else (case analyze_video_for_slate d True (video c) 30 of
              Inl e \<Rightarrow> status cr = ''error'' \<and>
                       reason cr = Some (''Analysis error: '' @ str_of_error e)
            | Inr si \<Rightarrow>
                (confidence si < 0.3 \<longrightarrow> status cr = ''skipped'' \<and>
                   reason cr = Some (''Low confidence slate detection ('' @
                                       format_2f (confidence si) @ '')'')) \<and>
                (\<not> confidence si < 0.3 \<and>
                 generate_clip_name si (original_name cr) \<noteq> original_name cr \<and> \<not> dry_run \<and>
                 \<not> rename_clip (SetClipName c) (generate_clip_name si (original_name cr))
                 \<longrightarrow> status cr = ''error'' \<and> reason cr = Some ''Failed to rename clip'')))"

text \<open>The invariant of the batch report.\<close>
definition batch_inv :: "BatchResult \<Rightarrow> bool" where
  "batch_inv r \<longleftrightarrow>
     analyzed_clips r = int (length (clip_results r)) \<and>
     successful_renames r + failed_renames r \<le> analyzed_clips r \<and>
     successful_renames r = int (length (filter (\<lambda>c. status c = ''renamed'') (clip_results r))) \<and>
     failed_renames r = int (length (filter (\<lambda>c. status c = ''error'') (clip_results r)))"

section \<open>Properties\<close>

subsection \<open>Name generation\<close>

text \<open>
  Claim C7. Identity law of the name generator: when production, scene, slate number,
  take and camera are all unset, \<open>generate_clip_name\<close> returns the original name unchanged,
  whatever the original name is.
\<close>
theorem generate_clip_name_identity:
  "production i = None \<Longrightarrow> scene i = None \<Longrightarrow> slate_number i = None \<Longrightarrow>
   take_fld i = None \<Longrightarrow> camera i = None \<Longrightarrow> generate_clip_name i n = n"
  by (simp add: generate_clip_name_def truthy_def)

theorem generate_clip_name_identity_witness:
  "generate_clip_name (SlateInfo_default\<lparr>roll := Some ''7'', confidence := 0.2\<rparr>) ''MVI_1234.mov''
     = ''MVI_1234.mov''"
  using generate_clip_name_identity
    [of "SlateInfo_default\<lparr>roll := Some ''7'', confidence := 0.2\<rparr>" "''MVI_1234.mov''"]
  by (simp add: SlateInfo_default_def)

subsection \<open>Confidence\<close>



subsection \<open>The parser on concrete slates\<close>

text \<open>
  Claim C2. The specification's example: the three lines \<open>SCENE: 5A\<close>, \<open>TAKE: 3\<close>,
  \<open>CAMERA: A\<close> should give scene 5A, take 3, camera A and the score 0.6. On the code the
  token \<open>SCENE:\<close> is not equal to \<open>SCENE\<close>, so the scene stays unset; take and camera are
  found and the score is 0.4.
\<close>
theorem scene_colon_example:
  "parse_slate_text ''SCENE: 5A\<newline>TAKE: 3\<newline>CAMERA: A'' =
     SlateInfo_default\<lparr>take_fld := Some ''3'', camera := Some ''A''\<rparr>
   \<and> scene (parse_slate_text ''SCENE: 5A\<newline>TAKE: 3\<newline>CAMERA: A'') = None
   \<and> calculate_confidence (parse_slate_text ''SCENE: 5A\<newline>TAKE: 3\<newline>CAMERA: A'')
        ''SCENE: 5A\<newline>TAKE: 3\<newline>CAMERA: A'' = 0.4"
  by code_simp

text \<open>
  Claim C10. There is a line that contains \<open>CAM\<close> but none of \<open>SLATE\<close>, \<open>SCENE\<close>, \<open>TAKE\<close>,
  \<open>ROLL\<close>, \<open>CAMERA\<close>, is longer than 5 characters and alphanumeric once spaces are removed,
  and from which the parser fills both the camera and the production: \<open>CAMCORDER A\<close> as
  the first line of the text.
\<close>
theorem camcorder_sets_camera_and_production:
  "contains ''CAM'' (upper (strip ''CAMCORDER A'')) \<and>
   \<not> list_ex (\<lambda>keyword. contains keyword (upper (strip ''CAMCORDER A'')))
        [''SLATE'', ''SCENE'', ''TAKE'', ''ROLL'', ''CAMERA''] \<and>
   length (upper (strip ''CAMCORDER A'')) > 5 \<and>
   isalnum (remove_char CHR '' '' (upper (strip ''CAMCORDER A''))) \<and>
   camera (parse_slate_text ''CAMCORDER A'') = Some ''A'' \<and>
   production (parse_slate_text ''CAMCORDER A'') = Some ''CAMCORDER A''"
  by code_simp

subsection \<open>The parser: which match is kept\<close>

lemma override_None [simp]: "override None x = x" "override m None = m"
  by (cases m; simp add: override_def)+

lemma override_Some [simp]: "override (Some v) x = Some v"
  by (simp add: override_def)
















lemma parse_lines_append: "parse_lines (xs @ ys) s = parse_lines ys (parse_lines xs s)"
  by (induction xs arbitrary: s) simp_all


lemma production_scan_slate_scene [simp]: "production (scan_slate_scene ws s) = production s"
  by (induction ws s rule: scan_slate_scene.induct) (simp_all add: Let_def)

lemma production_scan_take [simp]: "production (scan_take ws s) = production s"
  by (induction ws s rule: scan_take.induct) (simp_all add: Let_def)

lemma production_scan_roll [simp]: "production (scan_roll ws s) = production s"
  by (induction ws s rule: scan_roll.induct) (simp_all add: Let_def)

lemma production_scan_camera [simp]: "production (scan_camera ws s) = production s"
  by (induction ws s rule: scan_camera.induct) (simp_all add: Let_def)

lemma production_parse_line:
  "production (parse_line raw_line s) = production (production_rule (upper (strip raw_line)) s)"
  by (simp add: parse_line_def Let_def production_rule_def)

lemma production_parse_line_kept:
  "truthy (production s) \<Longrightarrow> production (parse_line raw_line s) = production s"
  by (simp add: production_parse_line production_rule_def)

lemma production_parse_lines_kept:
  "truthy (production s) \<Longrightarrow> production (parse_lines ls s) = production s"
  by (induction ls arbitrary: s) (simp_all add: production_parse_line_kept)




text \<open>
  Claim C3, as the code has it. A line whose stripped, upper-cased form contains none of
  \<open>SLATE\<close>, \<open>SCENE\<close>, \<open>TAKE\<close>, \<open>ROLL\<close>, \<open>CAMERA\<close>, is longer than 5 characters and is
  alphanumeric once spaces are removed, and that is reached while the production is still
  unset, gives the production: the stripped line in upper case.
\<close>
theorem production_is_upper_cased_line:
  assumes "\<not> truthy (production (parse_lines before s))"
    and "\<not> list_ex (\<lambda>keyword. contains keyword (upper (strip line)))
              [''SLATE'', ''SCENE'', ''TAKE'', ''ROLL'', ''CAMERA'']"
    and "length (upper (strip line)) > 5"
    and "isalnum (remove_char CHR '' '' (upper (strip line)))"
  shows "production (parse_lines (before @ line # after) s) = Some (upper (strip line))"
proof -
  let ?s1 = "parse_lines before s"
  have p: "production (parse_line line ?s1) = Some (upper (strip line))"
    using assms by (simp add: production_parse_line production_rule_def)
  then have "truthy (production (parse_line line ?s1))"
    using assms(3) by (auto simp: truthy_def)
  then have "production (parse_lines after (parse_line line ?s1)) = production (parse_line line ?s1)"
    by (rule production_parse_lines_kept)
  then show ?thesis by (simp add: parse_lines_append p)
qed

theorem production_is_upper_cased_line_witness:
  "production (parse_lines ([''Scene 5''] @ ''  My Film '' # [''Other Film'']) SlateInfo_default)
     = Some ''MY FILM''"
proof -
  have a: "\<not> truthy (production (parse_lines [''Scene 5''] SlateInfo_default))" by code_simp
  have b: "\<not> list_ex (\<lambda>keyword. contains keyword (upper (strip ''  My Film '')))
              [''SLATE'', ''SCENE'', ''TAKE'', ''ROLL'', ''CAMERA'']" by code_simp
  have c: "length (upper (strip ''  My Film '')) > 5" by code_simp
  have d: "isalnum (remove_char CHR '' '' (upper (strip ''  My Film '')))" by code_simp
  have e: "upper (strip ''  My Film '') = ''MY FILM''" by code_simp
  show ?thesis
    using production_is_upper_cased_line [OF a b c d, of "[''Other Film'']"] e by simp
qed

lemma alnum_after_strip_nonempty: "alnum_after_strip p \<Longrightarrow> p \<noteq> []"
  by (auto simp: alnum_after_strip_def isalnum_def remove_char_def)

lemma isdigit_nonempty: "isdigit p \<Longrightarrow> p \<noteq> []"
  by (auto simp: isdigit_def)

lemma parser_inv_scan_slate_scene: "parser_inv s \<Longrightarrow> parser_inv (scan_slate_scene ws s)"
proof (induction ws s rule: scan_slate_scene.induct)
  case (1 word nxt ws s)
  show ?case
    unfolding scan_slate_scene.simps(1)
    by (rule 1(1))
       (use 1(2) alnum_after_strip_nonempty[of "strip_char CHR '':'' nxt"] in
         \<open>auto simp: Let_def parser_inv_def fields_nonempty_def\<close>)
qed simp_all

lemma parser_inv_scan_take: "parser_inv s \<Longrightarrow> parser_inv (scan_take ws s)"
proof (induction ws s rule: scan_take.induct)
  case (1 word nxt ws s)
  show ?case
    unfolding scan_take.simps(1)
    by (rule 1(1))
       (use 1(2) isdigit_nonempty[of "strip_char CHR '':'' nxt"] in
         \<open>auto simp: Let_def parser_inv_def fields_nonempty_def\<close>)
qed simp_all

lemma parser_inv_scan_roll: "parser_inv s \<Longrightarrow> parser_inv (scan_roll ws s)"
proof (induction ws s rule: scan_roll.induct)
  case (1 word nxt ws s)
  show ?case
    unfolding scan_roll.simps(1)
    by (rule 1(1))
       (use 1(2) alnum_after_strip_nonempty[of "strip_char CHR '':'' nxt"] in
         \<open>auto simp: Let_def parser_inv_def fields_nonempty_def\<close>)
qed simp_all

lemma parser_inv_scan_camera: "parser_inv s \<Longrightarrow> parser_inv (scan_camera ws s)"
proof (induction ws s rule: scan_camera.induct)
  case (1 word nxt ws s)
  show ?case
    unfolding scan_camera.simps(1)
    by (rule 1(1))
       (use 1(2) alnum_after_strip_nonempty[of "strip_char CHR '':'' nxt"] in
         \<open>auto simp: Let_def parser_inv_def fields_nonempty_def\<close>)
qed simp_all

lemma parser_inv_production_rule: "parser_inv s \<Longrightarrow> parser_inv (production_rule line s)"
  by (auto simp: production_rule_def parser_inv_def fields_nonempty_def)

lemma parser_inv_parse_line: "parser_inv s \<Longrightarrow> parser_inv (parse_line raw_line s)"
  unfolding parse_line_def Let_def
  by (intro parser_inv_production_rule)
     (simp add: parser_inv_scan_slate_scene parser_inv_scan_take parser_inv_scan_roll
        parser_inv_scan_camera)

lemma parser_inv_parse_lines: "parser_inv s \<Longrightarrow> parser_inv (parse_lines ls s)"
  by (induction ls arbitrary: s) (simp_all add: parser_inv_parse_line)

lemma parser_inv_parse_slate_text: "parser_inv (parse_slate_text text)"
  unfolding parse_slate_text_def
  by (rule parser_inv_parse_lines) (simp add: parser_inv_def fields_nonempty_def SlateInfo_default_def)





lemma analyze_frame_frame_number: "frame_number (analyze_frame d frame) = 0"
proof (cases frame)
  case (Inl e)
  then show ?thesis by (simp add: analyze_frame_def SlateInfo_default_def)
next
  case (Inr ocr_text)
  have "frame_number (parse_slate_text ocr_text) = 0"
    using parser_inv_parse_slate_text[of ocr_text] by (simp add: parser_inv_def)
  then show ?thesis using Inr by (simp add: analyze_frame_def SlateInfo_default_def Let_def)
qed


text \<open>
  Claim C3 as stated (the production keeps the casing of the input) fails: the line
  \<open>My Film\<close> gives the production \<open>MY FILM\<close>.
\<close>
theorem production_not_original_case:
  "production (parse_slate_text ''My Film'') = Some ''MY FILM'' \<and>
   production (parse_slate_text ''My Film'') \<noteq> Some ''My Film''"
  by code_simp

subsection \<open>Selection of the best frame and the batch\<close>






lemma sample_frames_exit:
  assumes "sample_frames d max_frames rs frame_count best sampled = Inr (best', sampled')"
    and "confidence best \<le> 0.8" and "\<forall>x\<in>set sampled. confidence x \<le> 0.8"
  shows "(\<forall>x\<in>set sampled'. confidence x \<le> 0.8) \<or>
         (\<exists>pre c. sampled' = pre @ [c] \<and> (\<forall>x\<in>set pre. confidence x \<le> 0.8) \<and>
                  0.8 < confidence c \<and> best' = c)"
  using assms
proof (induction d max_frames rs frame_count best sampled rule: sample_frames.induct)
  case (1 d max_frames frame_count best sampled)
  then show ?case by auto
next
  case (2 d max_frames r rs frame_count best sampled)
  show ?case
  proof (cases "frame_count < max_frames")
    case False
    with 2(3,5) show ?thesis by auto
  next
    case lt: True
    show ?thesis
    proof (cases r)
      case (Inl e)
      with lt 2(3) show ?thesis by simp
    next
      case (Inr frame)
      show ?thesis
      proof (cases "frame_count mod 5 = 0")
        case False
        have "sample_frames d max_frames rs (frame_count + 1) best sampled = Inr (best', sampled')"
          using 2(3) lt Inr False by simp
        then show ?thesis using 2(2)[OF lt Inr False _ 2(4) 2(5)] by blast
      next
        case m5: True
        define c where "c = (analyze_frame d frame)\<lparr>frame_number := frame_count\<rparr>"
        define b where "b = (if confidence c > confidence best then c else best)"
        have step: "sample_frames d max_frames (r # rs) frame_count best sampled =
            (if confidence c > 0.8 then Inr (b, sampled @ [c])
             else sample_frames d max_frames rs (frame_count + 1) b (sampled @ [c]))"
          using lt Inr m5 by (simp add: Let_def c_def b_def)
        show ?thesis
        proof (cases "confidence c > 0.8")
          case True
          then have r: "best' = b" "sampled' = sampled @ [c]"
            using 2(3) unfolding step by simp_all
          have "b = c" using True 2(4) by (simp add: b_def)
          then show ?thesis using r True 2(5) by blast
        next
          case False
          then have run: "sample_frames d max_frames rs (frame_count + 1) b (sampled @ [c]) = Inr (best', sampled')"
            using 2(3) unfolding step by simp
          have b8: "confidence b \<le> 0.8" using False 2(4) by (simp add: b_def)
          have s8: "\<forall>x\<in>set (sampled @ [c]). confidence x \<le> 0.8" using False 2(5) by auto
          show ?thesis
            using 2(1)[OF lt Inr m5 c_def b_def False run b8 s8] by blast
        qed
      qed
    qed
  qed
qed

lemma sample_frames_exit_stable:
  assumes "sample_frames d max_frames rs frame_count best sampled = Inr (best', sampled')"
    and "\<forall>x\<in>set sampled. confidence x \<le> 0.8"
    and "\<exists>x\<in>set sampled'. 0.8 < confidence x"
  shows "sample_frames d max_frames (rs @ later) frame_count best sampled = Inr (best', sampled')"
  using assms
proof (induction d max_frames rs frame_count best sampled rule: sample_frames.induct)
  case (1 d max_frames frame_count best sampled)
  then show ?case by fastforce
next
  case (2 d max_frames r rs frame_count best sampled)
  show ?case
  proof (cases "frame_count < max_frames")
    case False
    with 2(3) show ?thesis by simp
  next
    case lt: True
    show ?thesis
    proof (cases r)
      case (Inl e)
      with lt 2(3) show ?thesis by simp
    next
      case (Inr frame)
      show ?thesis
      proof (cases "frame_count mod 5 = 0")
        case False
        have "sample_frames d max_frames rs (frame_count + 1) best sampled = Inr (best', sampled')"
          using 2(3) lt Inr False by simp
        from 2(2)[OF lt Inr False this 2(4) 2(5)]
        show ?thesis using lt Inr False by simp
      next
        case m5: True
        define c where "c = (analyze_frame d frame)\<lparr>frame_number := frame_count\<rparr>"
        define b where "b = (if confidence c > confidence best then c else best)"
        have step: "sample_frames d max_frames (r # rest) frame_count best sampled =
            (if confidence c > 0.8 then Inr (b, sampled @ [c])
             else sample_frames d max_frames rest (frame_count + 1) b (sampled @ [c]))" for rest
          using lt Inr m5 by (simp add: Let_def c_def b_def)
        show ?thesis
        proof (cases "confidence c > 0.8")
          case True
          then show ?thesis using 2(3) step[of rs] step[of "rs @ later"] by simp
        next
          case False
          then have run: "sample_frames d max_frames rs (frame_count + 1) b (sampled @ [c]) = Inr (best', sampled')"
            using 2(3) unfolding step by simp
          have s8: "\<forall>x\<in>set (sampled @ [c]). confidence x \<le> 0.8" using False 2(4) by auto
          from 2(1)[OF lt Inr m5 c_def b_def False run s8 2(5)]
          show ?thesis using False step[of "rs @ later"] by simp
        qed
      qed
    qed
  qed
qed

text \<open>
  Claim C6. Early exit: when a sampled frame has a confidence strictly above 0.8, it is the
  last frame sampled for the clip and it is the SlateInfo returned; the frames that follow
  it in the file do not matter, since none of them is read.
\<close>
theorem early_exit_stops_sampling:
  assumes "analyze_video_trace d file_exists cap max_frames = Inr (best, sampled)"
    and "i < length sampled" and "0.8 < confidence (sampled ! i)"
  shows "Suc i = length sampled \<and> best = sampled ! i \<and>
         analyze_video_for_slate d file_exists cap max_frames = Inr (sampled ! i) \<and>
         (\<forall>later. analyze_video_trace d file_exists (cap @ later) max_frames = Inr (best, sampled))"
proof -
  from assms(1) have ok: "HAS_OPENCV d" "file_exists"
    and run: "sample_frames d max_frames cap 0 SlateInfo_default [] = Inr (best, sampled)"
    by (simp_all add: analyze_video_trace_def split: if_splits)
  have hi: "\<exists>x\<in>set sampled. 0.8 < confidence x"
    using assms(2,3) nth_mem by blast
  from sample_frames_exit[OF run] hi
  obtain pre c where pc: "sampled = pre @ [c]" "\<forall>x\<in>set pre. confidence x \<le> 0.8" "best = c"
    by (fastforce simp: SlateInfo_default_def)
  have "\<not> i < length pre"
  proof
    assume "i < length pre"
    then have "sampled ! i \<in> set pre" by (simp add: pc(1) nth_append)
    with pc(2) assms(3) show False by fastforce
  qed
  with assms(2) have i: "i = length pre" by (simp add: pc(1))
  then have last: "sampled ! i = c" by (simp add: pc(1))
  have stable: "analyze_video_trace d file_exists (cap @ later) max_frames = Inr (best, sampled)" for later
    using sample_frames_exit_stable[OF run _ hi, of later] ok
    by (simp add: analyze_video_trace_def)
  show ?thesis
    using i last pc(1,3) stable assms(1) by (simp add: analyze_video_for_slate_def)
qed



theorem early_exit_stops_sampling_witness:
  "analyze_video_trace \<lparr>HAS_OPENCV = True, HAS_TESSERACT = True\<rparr> True
     [Inr (Inr ''TAKE 1''), Inr (Inr ''''), Inr (Inr ''''), Inr (Inr ''''), Inr (Inr ''''),
      Inr (Inr ''SLATE 23 SCENE 5A TAKE 3 ROLL 001''), Inr (Inr ''''), Inr (Inr ''''),
      Inr (Inr ''''), Inr (Inr ''''), Inr (Inr ''SLATE 24 SCENE 6 TAKE 1 ROLL 002 CAMERA B'')] 30
     = Inr (SlateInfo_default\<lparr>slate_number := Some ''23'', scene := Some ''5A'', take_fld := Some ''3'',
              roll := Some ''001'', confidence := 0.9, frame_number := 5\<rparr>,
            [SlateInfo_default\<lparr>take_fld := Some ''1'', confidence := 0.2\<rparr>,
             SlateInfo_default\<lparr>slate_number := Some ''23'', scene := Some ''5A'', take_fld := Some ''3'',
              roll := Some ''001'', confidence := 0.9, frame_number := 5\<rparr>]) \<and>
   analyze_video_for_slate \<lparr>HAS_OPENCV = True, HAS_TESSERACT = True\<rparr> True
     [Inr (Inr ''TAKE 1''), Inr (Inr ''''), Inr (Inr ''''), Inr (Inr ''''), Inr (Inr ''''),
      Inr (Inr ''SLATE 23 SCENE 5A TAKE 3 ROLL 001''), Inr (Inr ''''), Inr (Inr ''''),
      Inr (Inr ''''), Inr (Inr ''''), Inr (Inr ''SLATE 24 SCENE 6 TAKE 1 ROLL 002 CAMERA B'')] 30
     = Inr (SlateInfo_default\<lparr>slate_number := Some ''23'', scene := Some ''5A'', take_fld := Some ''3'',
              roll := Some ''001'', confidence := 0.9, frame_number := 5\<rparr>)"
proof -
  let ?c0 = "SlateInfo_default\<lparr>take_fld := Some ''1'', confidence := 0.2\<rparr>"
  let ?c5 = "SlateInfo_default\<lparr>slate_number := Some ''23'', scene := Some ''5A'', take_fld := Some ''3'',
              roll := Some ''001'', confidence := 0.9, frame_number := 5\<rparr>"
  have e: "analyze_video_trace \<lparr>HAS_OPENCV = True, HAS_TESSERACT = True\<rparr> True
     [Inr (Inr ''TAKE 1''), Inr (Inr ''''), Inr (Inr ''''), Inr (Inr ''''), Inr (Inr ''''),
      Inr (Inr ''SLATE 23 SCENE 5A TAKE 3 ROLL 001''), Inr (Inr ''''), Inr (Inr ''''),
      Inr (Inr ''''), Inr (Inr ''''), Inr (Inr ''SLATE 24 SCENE 6 TAKE 1 ROLL 002 CAMERA B'')] 30
     = Inr (?c5, [?c0, ?c5])"
    by code_simp
  have i: "1 < length [?c0, ?c5]" by simp
  have h: "0.8 < confidence ([?c0, ?c5] ! 1)" by simp
  show ?thesis
    using e early_exit_stops_sampling [OF e i h] by simp
qed

lemma process_clip_Inr:
  assumes "process_clip d dry_run c r = Inr r'"
  shows "\<exists>n p. GetName c = Inr n \<and> File_Path c = Inr p"
  using assms by (auto simp: process_clip_def split: sum.splits)

lemma process_clip_step:
  assumes "GetName c = Inr n" "File_Path c = Inr p"
  shows "\<exists>r' cr. process_clip d dry_run c r = Inr r' \<and>
           clip_results r' = clip_results r @ [cr] \<and>
           analyzed_clips r' = analyzed_clips r + 1 \<and>
           successful_renames r' = successful_renames r + (if status cr = ''renamed'' then 1 else 0) \<and>
           failed_renames r' = failed_renames r + (if status cr = ''error'' then 1 else 0) \<and>
           recorded d dry_run c cr"
proof (cases "\<not> truthy p \<or> \<not> path_exists c")
  case True
  then show ?thesis using assms
    by (auto simp: process_clip_def Let_def append_result_def recorded_def missing_file_def)
next
  case ex: False
  then have nm: "\<not> missing_file c" "path_exists c" using assms by (auto simp: missing_file_def)
  show ?thesis
  proof (cases "analyze_video_for_slate d True (video c) 30")
    case (Inl e)
    then show ?thesis using assms ex nm
      by (simp add: process_clip_def Let_def append_result_def recorded_def)
  next
    case (Inr si)
    show ?thesis
    proof (cases "confidence si < 0.3")
      case True
      then show ?thesis using assms ex nm Inr
        by (simp add: process_clip_def Let_def append_result_def recorded_def)
    next
      case hi: False
      show ?thesis
      proof (cases "generate_clip_name si n = n")
        case True
        then show ?thesis using assms ex nm Inr hi
          by (simp add: process_clip_def Let_def append_result_def recorded_def)
      next
        case diff: False
        show ?thesis
        proof (cases "\<not> dry_run \<and> \<not> rename_clip (SetClipName c) (generate_clip_name si n)")
          case True
          then show ?thesis using assms ex nm Inr hi diff
            by (simp add: process_clip_def Let_def append_result_def recorded_def)
        next
          case False
          then show ?thesis using assms ex nm Inr hi diff
            by (auto simp: process_clip_def Let_def append_result_def recorded_def)
        qed
      qed
    qed
  qed
qed



lemma batch_inv_process_clip:
  assumes "batch_inv r" and "process_clip d dry_run c r = Inr r'"
  shows "batch_inv r'"
proof -
  from process_clip_Inr[OF assms(2)] obtain n p where "GetName c = Inr n" "File_Path c = Inr p"
    by blast
  from process_clip_step[OF this, of d dry_run r] assms(2)
  obtain cr where s: "clip_results r' = clip_results r @ [cr]"
    "analyzed_clips r' = analyzed_clips r + 1"
    "successful_renames r' = successful_renames r + (if status cr = ''renamed'' then 1 else 0)"
    "failed_renames r' = failed_renames r + (if status cr = ''error'' then 1 else 0)"
    by auto
  show ?thesis using assms(1) unfolding batch_inv_def s by auto
qed

lemma batch_inv_process_clips:
  assumes "batch_inv r" and "process_clips d dry_run clips r = Inr r'"
  shows "batch_inv r'"
  using assms
proof (induction clips arbitrary: r)
  case Nil
  then show ?case by simp
next
  case (Cons c clips)
  from Cons.prems(2) obtain r1 where s: "process_clip d dry_run c r = Inr r1"
    "process_clips d dry_run clips r1 = Inr r'"
    by (auto split: sum.splits)
  from Cons.prems(1) s(1) have "batch_inv r1" by (rule batch_inv_process_clip)
  then show ?case using s(2) by (rule Cons.IH)
qed

lemma batch_inv_initial: "batch_inv initial_results"
  by (simp add: batch_inv_def initial_results_def)

text \<open>
  Claim C9. The invariant of the batch report holds for the empty report, is kept by
  processing any clips from a report that has it (so it holds after each clip), and holds
  for the report of every completed batch: the number of analyzed clips is the length of
  the result list, successful plus failed renames do not exceed it, and the two counters
  count exactly the results with status renamed and error, so a skipped clip adds to
  neither.
\<close>
theorem batch_result_invariant:
  "batch_inv initial_results \<and>
   (batch_inv r0 \<and> process_clips d dry_run clips r0 = Inr r \<longrightarrow> batch_inv r) \<and>
   (analyze_clips_and_rename d listing dry_run = Inr res \<longrightarrow> batch_inv res)"
proof -
  have "batch_inv res" if "analyze_clips_and_rename d listing dry_run = Inr res"
  proof -
    from that obtain cs where "process_clips d dry_run cs initial_results = Inr res"
      by (auto simp: analyze_clips_and_rename_def split: if_splits sum.splits)
    with batch_inv_initial show ?thesis by (rule batch_inv_process_clips)
  qed
  then show ?thesis using batch_inv_initial batch_inv_process_clips by blast
qed





theorem batch_result_invariant_witness:
  "analyze_clips_and_rename \<lparr>HAS_OPENCV = True, HAS_TESSERACT = True\<rparr>
     (Inr [\<lparr>GetName = Inr ''A001.mov'', File_Path = Inr (Some ''/media/A001.mov''), path_exists = True,
             video = [Inr (Inr ''SCENE 12\<newline>TAKE 4'')], SetClipName = (\<lambda>n. Inr True)\<rparr>,
           \<lparr>GetName = Inr ''A002.mov'', File_Path = Inr (Some ''''), path_exists = False,
             video = [], SetClipName = (\<lambda>n. Inr True)\<rparr>,
           \<lparr>GetName = Inr ''A003.mov'', File_Path = Inr (Some ''/media/A003.mov''), path_exists = True,
             video = [Inl (Exception ''truncated file'')], SetClipName = (\<lambda>n. Inr True)\<rparr>]) True
   = Inr \<lparr>analyzed_clips = 3, successful_renames = 1, failed_renames = 1,
          clip_results =
            [\<lparr>original_name = ''A001.mov'', status = ''renamed'', reason = None,
               new_name = Some ''Scene_12_Take_4.mov'',
               slate_info = Some [(''production'', None), (''slate_number'', None),
                                  (''scene'', Some ''12''), (''take'', Some ''4''),
                                  (''roll'', None), (''camera'', None)],
               result_confidence = Some 0.5\<rparr>,
             \<lparr>original_name = ''A002.mov'', status = ''skipped'',
               reason = Some ''File path not found or file does not exist'',
               new_name = None, slate_info = None, result_confidence = None\<rparr>,
             \<lparr>original_name = ''A003.mov'', status = ''error'',
               reason = Some ''Analysis error: truncated file'',
               new_name = None, slate_info = None, result_confidence = None\<rparr>]\<rparr>
   \<and> batch_inv \<lparr>analyzed_clips = 3, successful_renames = 1, failed_renames = 1,
          clip_results =
            [\<lparr>original_name = ''A001.mov'', status = ''renamed'', reason = None,
               new_name = Some ''Scene_12_Take_4.mov'',
               slate_info = Some [(''production'', None), (''slate_number'', None),
                                  (''scene'', Some ''12''), (''take'', Some ''4''),
                                  (''roll'', None), (''camera'', None)],
               result_confidence = Some 0.5\<rparr>,
             \<lparr>original_name = ''A002.mov'', status = ''skipped'',
               reason = Some ''File path not found or file does not exist'',
               new_name = None, slate_info = None, result_confidence = None\<rparr>,
             \<lparr>original_name = ''A003.mov'', status = ''error'',
               reason = Some ''Analysis error: truncated file'',
               new_name = None, slate_info = None, result_confidence = None\<rparr>]\<rparr>"
  (is "analyze_clips_and_rename ?d ?listing True = Inr ?r \<and> batch_inv ?r")
proof -
  have e: "analyze_clips_and_rename ?d ?listing True = Inr ?r"
    by code_simp
  show ?thesis
    using e batch_result_invariant [where d = ?d and listing = ?listing and dry_run = True and res = ?r]
    by blast
qed

end
